theory Spec2Isabelle
  imports Main
begin

section \<open>Python values, exceptions and the external collaborators\<close>

text \<open>
  The bridge is dynamically typed: request parameters come out of \<^verbatim>\<open>json.loads\<close> and the
  raw tweets and trends are objects of the scraping library that are only ever probed with
  \<^verbatim>\<open>getattr\<close> and \<^verbatim>\<open>hasattr\<close>. Both kinds of value live in one datatype.

  An exception is either the library's \<^verbatim>\<open>TwikitException\<close> or any other subclass of
  \<^verbatim>\<open>Exception\<close>; the string is what \<^verbatim>\<open>str(e)\<close> gives. \<^verbatim>\<open>KeyboardInterrupt\<close> and the other
  exceptions outside \<^verbatim>\<open>Exception\<close> are signals to the process, not failures of a request, and
  are not modelled.
\<close>

datatype exn = TwikitException string | OtherException string

fun str_exn :: "exn \<Rightarrow> string" where
  "str_exn (TwikitException m) = m"
| "str_exn (OtherException m) = m"

text \<open>
  Numbers are Python's unbounded integers (floats are left out). A dictionary keeps its
  items in order, as Python's does. An object is its list of attributes: a name that is not
  listed raises \<^verbatim>\<open>AttributeError\<close> on access, a name listed with \<open>Inl e\<close> is a property whose
  getter raises \<open>e\<close> (some exception other than \<^verbatim>\<open>AttributeError\<close>), and a name listed with
  \<open>Inr v\<close> holds \<open>v\<close>.
\<close>

datatype pyval =
    PNone
  | PBool bool
  | PInt int
  | PStr string
  | PList "pyval list"
  | PDict "(string \<times> pyval) list"
  | PObj "(string \<times> (exn + pyval)) list"

fun type_name :: "pyval \<Rightarrow> string" where
  "type_name PNone = ''NoneType''"
| "type_name (PBool _) = ''bool''"
| "type_name (PInt _) = ''int''"
| "type_name (PStr _) = ''str''"
| "type_name (PList _) = ''list''"
| "type_name (PDict _) = ''dict''"
| "type_name (PObj _) = ''object''"

text \<open>Truth value testing, as \<^verbatim>\<open>if x\<close>, \<^verbatim>\<open>not x\<close> and \<^verbatim>\<open>x or y\<close> do it.\<close>

fun truthy :: "pyval \<Rightarrow> bool" where
  "truthy PNone = False"
| "truthy (PBool b) = b"
| "truthy (PInt n) = (n \<noteq> 0)"
| "truthy (PStr s) = (s \<noteq> [])"
| "truthy (PList xs) = (xs \<noteq> [])"
| "truthy (PDict kvs) = (kvs \<noteq> [])"
| "truthy (PObj _) = True"

text \<open>\<^verbatim>\<open>x or 0\<close>\<close>

definition or_zero :: "pyval \<Rightarrow> pyval" where
  "or_zero v = (if truthy v then v else PInt 0)"

text \<open>
  \<^verbatim>\<open>getattr(obj, name, default)\<close>: only \<^verbatim>\<open>AttributeError\<close> is replaced by the default. None of
  the built-in types has an attribute of a name the bridge asks for.
\<close>

definition getattr_default :: "pyval \<Rightarrow> string \<Rightarrow> pyval \<Rightarrow> exn + pyval" where
  "getattr_default obj name dflt =
     (case obj of
        PObj attrs \<Rightarrow> (case map_of attrs name of None \<Rightarrow> Inr dflt | Some r \<Rightarrow> r)
      | _ \<Rightarrow> Inr dflt)"

text \<open>\<^verbatim>\<open>hasattr(obj, name)\<close>: false on \<^verbatim>\<open>AttributeError\<close>, any other exception passes through.\<close>

definition hasattr :: "pyval \<Rightarrow> string \<Rightarrow> exn + bool" where
  "hasattr obj name =
     (case obj of
        PObj attrs \<Rightarrow>
          (case map_of attrs name of
             None \<Rightarrow> Inr False
           | Some (Inl e) \<Rightarrow> Inl e
           | Some (Inr _) \<Rightarrow> Inr True)
      | _ \<Rightarrow> Inr False)"

text \<open>\<^verbatim>\<open>obj.name\<close>\<close>

definition getattr :: "pyval \<Rightarrow> string \<Rightarrow> exn + pyval" where
  "getattr obj name =
     (case obj of
        PObj attrs \<Rightarrow>
          (case map_of attrs name of
             None \<Rightarrow> Inl (OtherException
               ([CHR 0x27] @ type_name obj @ [CHR 0x27] @ '' object has no attribute ''
                  @ [CHR 0x27] @ name @ [CHR 0x27]))
           | Some r \<Rightarrow> r)
      | _ \<Rightarrow> Inl (OtherException
               ([CHR 0x27] @ type_name obj @ [CHR 0x27] @ '' object has no attribute ''
                  @ [CHR 0x27] @ name @ [CHR 0x27])))"

text \<open>
  \<^verbatim>\<open>d.get(key, default)\<close>. Only a dictionary has the method; on any other value the
  attribute lookup itself raises \<^verbatim>\<open>AttributeError\<close>.
\<close>

definition dict_get :: "pyval \<Rightarrow> string \<Rightarrow> pyval \<Rightarrow> exn + pyval" where
  "dict_get d key dflt =
     (case d of
        PDict kvs \<Rightarrow> Inr (case map_of kvs key of None \<Rightarrow> dflt | Some v \<Rightarrow> v)
      | _ \<Rightarrow> Inl (OtherException
               ([CHR 0x27] @ type_name d @ [CHR 0x27] @ '' object has no attribute ''
                  @ [CHR 0x27] @ ''get'' @ [CHR 0x27])))"

text \<open>
  \<^verbatim>\<open>for x in v\<close>: a list gives its elements, a string its characters, a dictionary its keys;
  nothing else the model has is iterable.
\<close>

definition py_iter :: "pyval \<Rightarrow> exn + pyval list" where
  "py_iter v =
     (case v of
        PList xs \<Rightarrow> Inr xs
      | PStr s \<Rightarrow> Inr (map (\<lambda>c. PStr [c]) s)
      | PDict kvs \<Rightarrow> Inr (map (\<lambda>kv. PStr (fst kv)) kvs)
      | _ \<Rightarrow> Inl (OtherException
               ([CHR 0x27] @ type_name v @ [CHR 0x27] @ '' object is not iterable'')))"

text \<open>
  What the bridge calls and does not define: the standard library (\<^verbatim>\<open>json.loads\<close>, \<^verbatim>\<open>str\<close>,
  \<^verbatim>\<open>traceback.format_exc\<close>, \<^verbatim>\<open>datetime\<close>) and the scraping client. The client and the clock
  have effects, so they take and return a world \<open>'w\<close> that the bridge threads through without
  looking into it.
  \<^item> \<open>json_loads\<close>: \<^verbatim>\<open>json.loads\<close>, see \<open>loads_result\<close>;
  \<^item> \<open>strptime_iso s\<close>: \<^verbatim>\<open>datetime.strptime(s, '%a %b %d %H:%M:%S %z %Y').isoformat()\<close>,
    \<open>None\<close> when it raises;
  \<^item> \<open>clock\<close>: \<^verbatim>\<open>datetime.now().isoformat()\<close>;
  \<^item> \<open>login\<close>: \<^verbatim>\<open>client.login(auth_info_1, auth_info_2, password)\<close>;
  \<^item> \<open>search_tweet query count\<close>: \<^verbatim>\<open>client.search_tweet(query, product='Latest', count)\<close>,
    the result as the list of the tweets it iterates over;
  \<^item> \<open>get_trends\<close>: \<^verbatim>\<open>client.get_trends('trending')\<close>.
\<close>

text \<open>
  A line of input is a Python \<^verbatim>\<open>str\<close>, a sequence of Unicode code points; \<open>codepoints\<close>
  reads an ASCII literal as one.
\<close>

type_synonym ustring = "nat list"

definition codepoints :: "string \<Rightarrow> ustring" where
  "codepoints s = map of_char s"

text \<open>
  \<^verbatim>\<open>json.loads\<close> returns the decoded value, raises \<^verbatim>\<open>json.JSONDecodeError\<close> with a detail,
  or raises some other exception: \<^verbatim>\<open>RecursionError\<close> on a text nested too deep,
  \<^verbatim>\<open>ValueError\<close> on an integer of too many digits.
\<close>

datatype loads_result = Decoded pyval | JSONDecodeError string | LoadsError exn

record 'w env =
  json_loads :: "ustring \<Rightarrow> loads_result"
  py_str :: "pyval \<Rightarrow> string"
  format_exc :: "exn \<Rightarrow> string"
  strptime_iso :: "string \<Rightarrow> string option"
  clock :: "'w \<Rightarrow> string \<times> 'w"
  login :: "pyval \<Rightarrow> pyval \<Rightarrow> pyval \<Rightarrow> 'w \<Rightarrow> (exn + unit) \<times> 'w"
  search_tweet :: "pyval \<Rightarrow> pyval \<Rightarrow> 'w \<Rightarrow> (exn + pyval list) \<times> 'w"
  get_trends :: "'w \<Rightarrow> (exn + pyval list) \<times> 'w"

section \<open>The bridge\<close>

datatype client = Client string

record bridge =
  client :: "client option"
  initialized :: bool
  username :: pyval
  email :: pyval
  password :: pyval

text \<open>\<^verbatim>\<open>TwikitBridge.__init__\<close>\<close>

definition TwikitBridge :: bridge where
  "TwikitBridge =
     \<lparr>client = None, initialized = False, username = PNone, email = PNone, password = PNone\<rparr>"

subsection \<open>initialize\<close>

definition initialize ::
  "'w env \<Rightarrow> bridge \<Rightarrow> pyval \<Rightarrow> pyval \<Rightarrow> pyval \<Rightarrow> 'w \<Rightarrow> pyval \<times> bridge \<times> 'w" where
  "initialize env self usr eml pwd w =
     (let self1 = self\<lparr>username := usr, email := eml, password := pwd\<rparr>;
          self2 = self1\<lparr>client := Some (Client ''en-US'')\<rparr>
      in case login env usr eml pwd w of
           (Inr _, w') \<Rightarrow>
             (PDict [(''success'', PBool True),
                     (''message'', PStr ''Twikit client initialized successfully''),
                     (''username'', usr)],
              self2\<lparr>initialized := True\<rparr>, w')
         | (Inl (TwikitException m), w') \<Rightarrow>
             (PDict [(''success'', PBool False),
                     (''error'', PStr (''Twikit authentication failed: '' @ m)),
                     (''type'', PStr ''AUTH_ERROR'')],
              self2, w')
         | (Inl (OtherException m), w') \<Rightarrow>
             (PDict [(''success'', PBool False),
                     (''error'', PStr (''Initialization failed: '' @ m)),
                     (''type'', PStr ''UNKNOWN_ERROR''),
                     (''traceback'', PStr (format_exc env (OtherException m)))],
              self2, w'))"

subsection \<open>Sequencing code that may raise\<close>

definition bindE :: "exn + 'a \<Rightarrow> ('a \<Rightarrow> exn + 'b) \<Rightarrow> exn + 'b" where
  "bindE m f = (case m of Inl e \<Rightarrow> Inl e | Inr x \<Rightarrow> f x)"

subsection \<open>search\_tweets: mapping one raw tweet\<close>

text \<open>
  The inner loop of the media block: every media object that has a \<^verbatim>\<open>media_url_https\<close>
  attribute contributes it.
\<close>

fun media_loop :: "pyval list \<Rightarrow> pyval list \<Rightarrow> exn + pyval list" where
  "media_loop [] media_urls = Inr media_urls"
| "media_loop (media # rest) media_urls =
     bindE (hasattr media ''media_url_https'') (\<lambda>has.
       if has
       then bindE (getattr media ''media_url_https'') (\<lambda>u. media_loop rest (media_urls @ [u]))
       else media_loop rest media_urls)"

text \<open>\<^verbatim>\<open># Extract media URLs\<close>\<close>

definition extract_media :: "pyval \<Rightarrow> exn + pyval list" where
  "extract_media tweet =
     bindE (hasattr tweet ''media'') (\<lambda>has.
       if \<not> has then Inr []
       else bindE (getattr tweet ''media'') (\<lambda>m.
         if \<not> truthy m then Inr []
         else bindE (getattr tweet ''media'') (\<lambda>m'.
                bindE (py_iter m') (\<lambda>ms. media_loop ms []))))"

text \<open>\<^verbatim>\<open># Extract metrics\<close>: like, retweet, reply and view count, in this order.\<close>

definition extract_metrics :: "pyval \<Rightarrow> exn + (pyval \<times> pyval \<times> pyval \<times> pyval)" where
  "extract_metrics tweet =
     bindE (getattr_default tweet ''favorite_count'' (PInt 0)) (\<lambda>fc.
     bindE (getattr_default tweet ''retweet_count'' (PInt 0)) (\<lambda>rt.
     bindE (getattr_default tweet ''reply_count'' (PInt 0)) (\<lambda>rp.
     bindE (getattr_default tweet ''view_count'' (PInt 0)) (\<lambda>vc.
       Inr (or_zero fc, or_zero rt, or_zero rp, or_zero vc)))))"

text \<open>
  \<^verbatim>\<open># Parse timestamp\<close>. \<^verbatim>\<open>strptime\<close> raises \<^verbatim>\<open>TypeError\<close> on anything that is not a string
  and \<^verbatim>\<open>ValueError\<close> on a string of another format; the bare \<^verbatim>\<open>except\<close> catches both.
\<close>

definition timestamp_of :: "'w env \<Rightarrow> pyval \<Rightarrow> 'w \<Rightarrow> string \<times> 'w" where
  "timestamp_of env created_at w =
     (if truthy created_at
      then (case created_at of
              PStr s \<Rightarrow> (case strptime_iso env s of Some stamp \<Rightarrow> (stamp, w) | None \<Rightarrow> clock env w)
            | _ \<Rightarrow> clock env w)
      else clock env w)"

definition parse_timestamp :: "'w env \<Rightarrow> pyval \<Rightarrow> 'w \<Rightarrow> (exn + string) \<times> 'w" where
  "parse_timestamp env tweet w =
     (case getattr_default tweet ''created_at'' PNone of
        Inl e \<Rightarrow> (Inl e, w)
      | Inr created_at \<Rightarrow> (case timestamp_of env created_at w of (ts, w') \<Rightarrow> (Inr ts, w')))"

text \<open>\<^verbatim>\<open># Extract user info\<close>: author name and author username.\<close>

definition extract_user :: "pyval \<Rightarrow> exn + (pyval \<times> pyval)" where
  "extract_user tweet =
     bindE (getattr_default tweet ''user'' PNone) (\<lambda>user.
     bindE (if truthy user then getattr_default user ''name'' (PStr ''Unknown'')
            else Inr (PStr ''Unknown'')) (\<lambda>author_name.
     bindE (if truthy user then getattr_default user ''screen_name'' (PStr ''unknown'')
            else Inr (PStr ''unknown'')) (\<lambda>author_username.
       Inr (author_name, author_username))))"

text \<open>
  The dictionary display: the values are evaluated from top to bottom, and the default of
  a \<^verbatim>\<open>getattr\<close> before the call itself.
\<close>

definition tweet_data ::
  "'w env \<Rightarrow> pyval \<Rightarrow> pyval list \<Rightarrow> pyval \<times> pyval \<times> pyval \<times> pyval \<Rightarrow> string \<Rightarrow>
     pyval \<times> pyval \<Rightarrow> exn + pyval" where
  "tweet_data env tweet media_urls metrics timestamp author =
     (case metrics of (like_count, retweet_count, reply_count, view_count) \<Rightarrow>
      case author of (author_name, author_username) \<Rightarrow>
        bindE (getattr_default tweet ''id'' (PStr [])) (\<lambda>i.
        bindE (getattr_default tweet ''id_str'' (PStr (py_str env i))) (\<lambda>id_val.
        bindE (getattr_default tweet ''text'' (PStr [])) (\<lambda>t.
        bindE (getattr_default tweet ''full_text'' t) (\<lambda>text_val.
        bindE (getattr_default tweet ''id_str'' (PStr [])) (\<lambda>id_str.
          Inr (PDict
            [(''id'', id_val),
             (''text'', text_val),
             (''author'', author_name),
             (''username'', author_username),
             (''timestamp'', PStr timestamp),
             (''url'', PStr (''https://twitter.com/'' @ py_str env author_username
                              @ ''/status/'' @ py_str env id_str)),
             (''likes'', like_count),
             (''retweets'', retweet_count),
             (''replies'', reply_count),
             (''views'', view_count),
             (''images'', PList media_urls),
             (''platform'', PStr ''twitter'')])))))))"

text \<open>The body of the inner \<^verbatim>\<open>try\<close>: \<open>Inl\<close> is the exception that makes the loop skip the tweet.\<close>

definition map_tweet :: "'w env \<Rightarrow> pyval \<Rightarrow> 'w \<Rightarrow> (exn + pyval) \<times> 'w" where
  "map_tweet env tweet w =
     (case extract_media tweet of
        Inl e \<Rightarrow> (Inl e, w)
      | Inr media_urls \<Rightarrow>
          (case extract_metrics tweet of
             Inl e \<Rightarrow> (Inl e, w)
           | Inr metrics \<Rightarrow>
               (case parse_timestamp env tweet w of
                  (Inl e, w') \<Rightarrow> (Inl e, w')
                | (Inr timestamp, w') \<Rightarrow>
                    (bindE (extract_user tweet)
                       (tweet_data env tweet media_urls metrics timestamp), w'))))"

text \<open>\<^verbatim>\<open>for tweet in tweets\<close>, with \<^verbatim>\<open>except Exception: continue\<close>\<close>

fun tweets_loop :: "'w env \<Rightarrow> pyval list \<Rightarrow> pyval list \<Rightarrow> 'w \<Rightarrow> pyval list \<times> 'w" where
  "tweets_loop env [] results w = (results, w)"
| "tweets_loop env (tweet # rest) results w =
     (case map_tweet env tweet w of
        (Inl e, w') \<Rightarrow> tweets_loop env rest results w'
      | (Inr item, w') \<Rightarrow> tweets_loop env rest (results @ [item]) w')"

definition not_initialized :: pyval where
  "not_initialized =
     PDict [(''success'', PBool False),
            (''error'', PStr ''Client not initialized. Call initialize first.''),
            (''type'', PStr ''NOT_INITIALIZED'')]"

definition search_tweets :: "'w env \<Rightarrow> bridge \<Rightarrow> pyval \<Rightarrow> pyval \<Rightarrow> 'w \<Rightarrow> pyval \<times> 'w" where
  "search_tweets env self query count w =
     (if \<not> initialized self \<or> client self = None then (not_initialized, w)
      else case search_tweet env query count w of
             (Inr tweets, w') \<Rightarrow>
               (case tweets_loop env tweets [] w' of
                  (results, w'') \<Rightarrow>
                    (PDict [(''success'', PBool True),
                            (''tweets'', PList results),
                            (''count'', PInt (int (length results))),
                            (''query'', query)], w''))
           | (Inl (TwikitException m), w') \<Rightarrow>
               (PDict [(''success'', PBool False),
                       (''error'', PStr (''Twitter API error: '' @ m)),
                       (''type'', PStr ''API_ERROR'')], w')
           | (Inl (OtherException m), w') \<Rightarrow>
               (PDict [(''success'', PBool False),
                       (''error'', PStr (''Search failed: '' @ m)),
                       (''type'', PStr ''UNKNOWN_ERROR''),
                       (''traceback'', PStr (format_exc env (OtherException m)))], w'))"

subsection \<open>get\_trending\<close>

text \<open>
  \<^verbatim>\<open>min(count, len(trends))\<close> compares \<^verbatim>\<open>len(trends) < count\<close>: an integer (or a boolean,
  which is one) is fine, any other value raises \<^verbatim>\<open>TypeError\<close>.
\<close>

definition min_count :: "pyval \<Rightarrow> int \<Rightarrow> exn + int" where
  "min_count count n =
     (case count of
        PInt c \<Rightarrow> Inr (if n < c then n else c)
      | PBool b \<Rightarrow> Inr (if n < (if b then 1 else 0) then n else (if b then 1 else 0))
      | _ \<Rightarrow> Inl (OtherException
               ([CHR 0x27] @ ''<'' @ [CHR 0x27] @ '' not supported between instances of ''
                  @ [CHR 0x27] @ ''int'' @ [CHR 0x27] @ '' and ''
                  @ [CHR 0x27] @ type_name count @ [CHR 0x27])))"

text \<open>\<^verbatim>\<open>xs[:m]\<close>: a negative bound counts from the end.\<close>

definition slice_to :: "'a list \<Rightarrow> int \<Rightarrow> 'a list" where
  "slice_to xs m = (if 0 \<le> m then take (nat m) xs else take (nat (int (length xs) + m)) xs)"

definition map_trend :: "pyval \<Rightarrow> exn + pyval" where
  "map_trend trend =
     bindE (getattr_default trend ''name'' (PStr [])) (\<lambda>name.
     bindE (getattr_default trend ''url'' (PStr [])) (\<lambda>url.
     bindE (getattr_default trend ''tweet_volume'' PNone) (\<lambda>volume.
       Inr (PDict [(''name'', name),
                   (''url'', url),
                   (''tweet_volume'', volume),
                   (''platform'', PStr ''twitter'')]))))"

fun trends_loop :: "pyval list \<Rightarrow> pyval list \<Rightarrow> pyval list" where
  "trends_loop [] results = results"
| "trends_loop (trend # rest) results =
     (case map_trend trend of
        Inl e \<Rightarrow> trends_loop rest results
      | Inr item \<Rightarrow> trends_loop rest (results @ [item]))"

definition get_trending :: "'w env \<Rightarrow> bridge \<Rightarrow> pyval \<Rightarrow> 'w \<Rightarrow> pyval \<times> 'w" where
  "get_trending env self count w =
     (if \<not> initialized self \<or> client self = None then (not_initialized, w)
      else case get_trends env w of
             (Inr trends, w') \<Rightarrow>
               (case min_count count (int (length trends)) of
                  Inr m \<Rightarrow>
                    (let results = trends_loop (slice_to trends m) []
                     in (PDict [(''success'', PBool True),
                                (''trends'', PList results),
                                (''count'', PInt (int (length results)))], w'))
                | Inl e \<Rightarrow>
                    (PDict [(''success'', PBool False),
                            (''error'', PStr (''Trending fetch failed: '' @ str_exn e)),
                            (''type'', PStr ''UNKNOWN_ERROR''),
                            (''traceback'', PStr (format_exc env e))], w'))
           | (Inl (TwikitException m), w') \<Rightarrow>
               (PDict [(''success'', PBool False),
                       (''error'', PStr (''Twitter API error: '' @ m)),
                       (''type'', PStr ''API_ERROR'')], w')
           | (Inl (OtherException m), w') \<Rightarrow>
               (PDict [(''success'', PBool False),
                       (''error'', PStr (''Trending fetch failed: '' @ m)),
                       (''type'', PStr ''UNKNOWN_ERROR''),
                       (''traceback'', PStr (format_exc env (OtherException m)))], w'))"

section \<open>The dispatcher\<close>

definition envelope_result :: "pyval \<Rightarrow> pyval \<Rightarrow> pyval" where
  "envelope_result result request_id =
     PDict [(''jsonrpc'', PStr ''2.0''), (''result'', result), (''id'', request_id)]"

definition envelope_error :: "pyval \<Rightarrow> pyval \<Rightarrow> pyval" where
  "envelope_error err request_id =
     PDict [(''jsonrpc'', PStr ''2.0''), (''error'', err), (''id'', request_id)]"

text \<open>
  The body of the \<^verbatim>\<open>try\<close> of \<^verbatim>\<open>handle_request\<close>. The arguments of a handler are read from
  \<^verbatim>\<open>params\<close> before the handler is called, so a \<^verbatim>\<open>params\<close> that is no dictionary raises
  with the bridge untouched.
\<close>

definition dispatch ::
  "'w env \<Rightarrow> bridge \<Rightarrow> pyval \<Rightarrow> pyval \<Rightarrow> pyval \<Rightarrow> 'w \<Rightarrow> (exn + pyval) \<times> bridge \<times> 'w" where
  "dispatch env self method params request_id w =
     (if method = PStr ''initialize'' then
        (case bindE (dict_get params ''username'' PNone) (\<lambda>u.
              bindE (dict_get params ''email'' PNone) (\<lambda>e.
              bindE (dict_get params ''password'' PNone) (\<lambda>p. Inr (u, e, p)))) of
           Inl ex \<Rightarrow> (Inl ex, self, w)
         | Inr (u, e, p) \<Rightarrow>
             (case initialize env self u e p w of
                (result, self', w') \<Rightarrow> (Inr (envelope_result result request_id), self', w')))
      else if method = PStr ''search'' then
        (case bindE (dict_get params ''query'' PNone) (\<lambda>q.
              bindE (dict_get params ''count'' (PInt 20)) (\<lambda>c. Inr (q, c))) of
           Inl ex \<Rightarrow> (Inl ex, self, w)
         | Inr (q, c) \<Rightarrow>
             (case search_tweets env self q c w of
                (result, w') \<Rightarrow> (Inr (envelope_result result request_id), self, w')))
      else if method = PStr ''trending'' then
        (case dict_get params ''count'' (PInt 20) of
           Inl ex \<Rightarrow> (Inl ex, self, w)
         | Inr c \<Rightarrow>
             (case get_trending env self c w of
                (result, w') \<Rightarrow> (Inr (envelope_result result request_id), self, w')))
      else
        (Inr (envelope_error
                (PDict [(''code'', PInt (- 32601)),
                        (''message'', PStr (''Method not found: '' @ py_str env method))])
                request_id), self, w))"

text \<open>
  \<^verbatim>\<open>handle_request\<close>: the three \<^verbatim>\<open>request.get\<close> calls come before the \<^verbatim>\<open>try\<close>, so what they
  raise leaves the function; what the body raises becomes the \<open>-32603\<close> response.
\<close>

definition handle_request ::
  "'w env \<Rightarrow> bridge \<Rightarrow> pyval \<Rightarrow> 'w \<Rightarrow> (exn + pyval) \<times> bridge \<times> 'w" where
  "handle_request env self request w =
     (case bindE (dict_get request ''method'' PNone) (\<lambda>method.
           bindE (dict_get request ''params'' (PDict [])) (\<lambda>params.
           bindE (dict_get request ''id'' PNone) (\<lambda>request_id.
             Inr (method, params, request_id)))) of
        Inl ex \<Rightarrow> (Inl ex, self, w)
      | Inr (method, params, request_id) \<Rightarrow>
          (case dispatch env self method params request_id w of
             (Inl ex, self', w') \<Rightarrow>
               (Inr (envelope_error
                       (PDict [(''code'', PInt (- 32603)),
                               (''message'', PStr (''Internal error: '' @ str_exn ex)),
                               (''data'', PStr (format_exc env ex))])
                       request_id), self', w')
           | (Inr response, self', w') \<Rightarrow> (Inr response, self', w')))"

section \<open>The protocol loop\<close>

text \<open>
  \<^verbatim>\<open>str.strip()\<close> removes, at both ends, the code points that \<^verbatim>\<open>str.isspace\<close> accepts:
  the ASCII ones, U+0085, U+00A0, U+1680, U+2000 to U+200A, U+2028, U+2029, U+202F, U+205F
  and U+3000.
\<close>

definition is_space :: "nat \<Rightarrow> bool" where
  "is_space c = (c \<in> set [0x09, 0x0A, 0x0B, 0x0C, 0x0D, 0x1C, 0x1D, 0x1E, 0x1F, 0x20,
                           0x85, 0xA0, 0x1680,
                           0x2000, 0x2001, 0x2002, 0x2003, 0x2004, 0x2005, 0x2006, 0x2007,
                           0x2008, 0x2009, 0x200A,
                           0x2028, 0x2029, 0x202F, 0x205F, 0x3000])"

definition strip :: "ustring \<Rightarrow> ustring" where
  "strip s = rev (dropWhile is_space (rev (dropWhile is_space s)))"

text \<open>
  \<^verbatim>\<open>json.dumps\<close> raises \<^verbatim>\<open>TypeError\<close> on an object of the scraping library, naming its
  type; everything else of the model has a JSON text.
\<close>

fun json_serializable :: "pyval \<Rightarrow> bool" where
  "json_serializable (PList xs) = (\<forall>x \<in> set xs. json_serializable x)"
| "json_serializable (PDict kvs) = (\<forall>v \<in> snd ` set kvs. json_serializable v)"
| "json_serializable (PObj _) = False"
| "json_serializable _ = True"

definition json_dumps :: "pyval \<Rightarrow> exn + pyval" where
  "json_dumps v =
     (if json_serializable v then Inr v
      else Inl (OtherException ''Object of type object is not JSON serializable''))"

definition ready :: pyval where
  "ready = PDict [(''status'', PStr ''ready''), (''version'', PStr ''1.0.0'')]"

definition parse_error :: "string \<Rightarrow> pyval" where
  "parse_error detail =
     envelope_error
       (PDict [(''code'', PInt (- 32700)), (''message'', PStr (''Parse error: '' @ detail))])
       PNone"

definition server_error :: "'w env \<Rightarrow> exn \<Rightarrow> pyval" where
  "server_error env ex =
     envelope_error
       (PDict [(''code'', PInt (- 32603)),
               (''message'', PStr (''Server error: '' @ str_exn ex)),
               (''data'', PStr (format_exc env ex))])
       PNone"

text \<open>
  The \<^verbatim>\<open>while True\<close> of \<^verbatim>\<open>main\<close>. The input is the list of the lines that the successive
  \<^verbatim>\<open>readline\<close> calls return, and once it is used up \<^verbatim>\<open>readline\<close> returns the empty string.
  The output is the list of the values printed, each one line of JSON. Only
  \<^verbatim>\<open>JSONDecodeError\<close> is caught next to \<^verbatim>\<open>json.loads\<close>; whatever else it raises reaches the
  \<^verbatim>\<open>except Exception\<close> at the end of the loop body, as does what \<^verbatim>\<open>handle_request\<close> and
  \<^verbatim>\<open>json.dumps\<close> raise.
\<close>

fun main_loop ::
  "'w env \<Rightarrow> ustring list \<Rightarrow> bridge \<Rightarrow> 'w \<Rightarrow> pyval list \<Rightarrow> pyval list \<times> bridge \<times> 'w" where
  "main_loop env [] self w out = (out, self, w)"
| "main_loop env (line # rest) self w out =
     (if line = [] then (out, self, w)
      else if strip line = [] then main_loop env rest self w out
      else case json_loads env (strip line) of
             JSONDecodeError detail \<Rightarrow>
               main_loop env rest self w (out @ [parse_error detail])
           | LoadsError ex \<Rightarrow> main_loop env rest self w (out @ [server_error env ex])
           | Decoded request \<Rightarrow>
               (case handle_request env self request w of
                  (Inl ex, self', w') \<Rightarrow>
                    main_loop env rest self' w' (out @ [server_error env ex])
                | (Inr response, self', w') \<Rightarrow>
                    (case json_dumps response of
                       Inl ex \<Rightarrow> main_loop env rest self' w' (out @ [server_error env ex])
                     | Inr printed \<Rightarrow> main_loop env rest self' w' (out @ [printed]))))"

definition main :: "'w env \<Rightarrow> ustring list \<Rightarrow> 'w \<Rightarrow> pyval list \<times> bridge \<times> 'w" where
  "main env lines w = main_loop env lines TwikitBridge w [ready]"

section \<open>Repeated calls, and the batch as the specification describes it\<close>

text \<open>\<open>n\<close> calls of \<^verbatim>\<open>initialize\<close> with the same credentials, one after the other.\<close>

fun initialize_n ::
  "'w env \<Rightarrow> nat \<Rightarrow> bridge \<Rightarrow> pyval \<Rightarrow> pyval \<Rightarrow> pyval \<Rightarrow> 'w \<Rightarrow> pyval list \<times> bridge \<times> 'w" where
  "initialize_n env 0 self usr eml pwd w = ([], self, w)"
| "initialize_n env (Suc n) self usr eml pwd w =
     (case initialize env self usr eml pwd w of
        (r, self', w') \<Rightarrow>
          (case initialize_n env n self' usr eml pwd w' of
             (rs, self'', w'') \<Rightarrow> (r # rs, self'', w'')))"

text \<open>
  The specification's view of a search batch: every raw tweet is mapped in turn, to an
  item or to a failure, and the failures are then filtered out.
\<close>

fun map_each :: "'w env \<Rightarrow> pyval list \<Rightarrow> 'w \<Rightarrow> (exn + pyval) list \<times> 'w" where
  "map_each env [] w = ([], w)"
| "map_each env (tweet # rest) w =
     (case map_tweet env tweet w of
        (r, w') \<Rightarrow> (case map_each env rest w' of (rs, w'') \<Rightarrow> (r # rs, w'')))"

definition mapped_items :: "(exn + pyval) list \<Rightarrow> pyval list" where
  "mapped_items rs = List.map_filter (\<lambda>r. case r of Inl e \<Rightarrow> None | Inr item \<Rightarrow> Some item) rs"

definition failed_count :: "(exn + pyval) list \<Rightarrow> nat" where
  "failed_count rs = length (filter isl rs)"

section \<open>A stub of the collaborators\<close>

text \<open>
  Concrete collaborators to run the bridge on. The world counts the calls made to the
  scraping client. \<^verbatim>\<open>login\<close> accepts the password \<^verbatim>\<open>p\<close> only; \<^verbatim>\<open>search_tweet\<close> returns
  three tweets, the third with a \<^verbatim>\<open>media\<close> that cannot be iterated (for the query
  \<^verbatim>\<open>dates\<close>: four tweets whose \<^verbatim>\<open>created_at\<close> does not parse, is absent, raises when it is
  read, and parses); \<^verbatim>\<open>get_trends\<close> returns
  three trends, the third with a \<^verbatim>\<open>name\<close> that raises. \<^verbatim>\<open>json.loads\<close> knows a few request
  lines, raises \<^verbatim>\<open>RecursionError\<close> on 2000 opening brackets, as Python's does, and rejects
  the rest.
\<close>

definition stub_tweets :: "pyval list" where
  "stub_tweets =
     [PObj [(''id_str'', Inr (PStr ''1'')),
            (''full_text'', Inr (PStr ''cats'')),
            (''created_at'', Inr (PStr ''Wed Oct 10 20:19:24 +0000 2018'')),
            (''favorite_count'', Inr (PInt 3)),
            (''user'', Inr (PObj [(''name'', Inr (PStr ''Ann'')),
                                  (''screen_name'', Inr (PStr ''ann''))]))],
      PObj [(''id_str'', Inr (PStr ''2'')),
            (''created_at'', Inr (PStr ''yesterday''))],
      PObj [(''id_str'', Inr (PStr ''3'')),
            (''created_at'', Inr (PStr ''last week'')),
            (''media'', Inr (PInt 5))]]"

definition stub_dated :: "pyval list" where
  "stub_dated =
     [PObj [(''created_at'', Inr (PStr ''yesterday'')), (''id_str'', Inr (PStr ''4''))],
      PObj [(''id_str'', Inr (PStr ''5''))],
      PObj [(''created_at'', Inl (OtherException ''boom'')), (''id_str'', Inr (PStr ''6''))],
      PObj [(''created_at'', Inr (PStr ''Wed Oct 10 20:19:24 +0000 2018'')),
            (''id_str'', Inr (PStr ''7''))]]"

definition stub_trends :: "pyval list" where
  "stub_trends =
     [PObj [(''name'', Inr (PStr ''#a'')), (''tweet_volume'', Inr (PInt 10))],
      PObj [(''name'', Inr (PStr ''#b''))],
      PObj [(''name'', Inl (OtherException ''boom''))]]"

definition stub_loads :: "ustring \<Rightarrow> loads_result" where
  \<open>stub_loads s =
     (if length s = 2000 \<and> list_all (\<lambda>c. c = 0x5B) s
      then LoadsError (OtherException
             ''maximum recursion depth exceeded while decoding a JSON array from a unicode string'')
      else if s = codepoints
        ''{"method":"initialize","params":{"username":"u","email":"e","password":"p"},"id":1}''
      then Decoded (PDict [(''method'', PStr ''initialize''),
                           (''params'', PDict [(''username'', PStr ''u''),
                                               (''email'', PStr ''e''),
                                               (''password'', PStr ''p'')]),
                           (''id'', PInt 1)])
      else if s = codepoints ''{"method":"trending","params":{"count":1},"id":2}''
      then Decoded (PDict [(''method'', PStr ''trending''),
                           (''params'', PDict [(''count'', PInt 1)]),
                           (''id'', PInt 2)])
      else if s = codepoints ''{"method":"search","params":null,"id":7}''
      then Decoded (PDict [(''method'', PStr ''search''), (''params'', PNone),
                           (''id'', PInt 7)])
      else if s = codepoints ''[1]'' then Decoded (PList [PInt 1])
      else if s = codepoints ''42'' then Decoded (PInt 42)
      else JSONDecodeError ''Expecting value: line 1 column 1 (char 0)'')\<close>

definition stub_str :: "pyval \<Rightarrow> string" where
  "stub_str v =
     (case v of
        PStr s \<Rightarrow> s
      | PNone \<Rightarrow> ''None''
      | PBool b \<Rightarrow> (if b then ''True'' else ''False'')
      | _ \<Rightarrow> ''...'')"

definition stub :: "nat env" where
  "stub =
     \<lparr>json_loads = stub_loads,
      py_str = stub_str,
      format_exc = (\<lambda>ex. ''Traceback (most recent call last): '' @ str_exn ex),
      strptime_iso = (\<lambda>s. if s = ''Wed Oct 10 20:19:24 +0000 2018''
                           then Some ''2018-10-10T20:19:24+00:00'' else None),
      clock = (\<lambda>w. (''2026-01-01T00:00:00'', w)),
      login = (\<lambda>u e p w. if p = PStr ''p'' then (Inr (), Suc w)
                           else (Inl (TwikitException ''bad credentials''), Suc w)),
      search_tweet = (\<lambda>q c w. (Inr (if q = PStr ''dates'' then stub_dated else stub_tweets),
                                   Suc w)),
      get_trends = (\<lambda>w. (Inr stub_trends, Suc w))\<rparr>"

text \<open>The bridge after \<^verbatim>\<open>initialize('u', 'e', 'p')\<close> has succeeded.\<close>

definition logged_in :: bridge where
  "logged_in =
     \<lparr>client = Some (Client ''en-US''), initialized = True,
      username = PStr ''u'', email = PStr ''e'', password = PStr ''p''\<rparr>"

section \<open>Unfolding the model on concrete inputs\<close>

lemmas stub_defs =
  stub_def stub_loads_def stub_str_def stub_tweets_def stub_dated_def stub_trends_def
  logged_in_def
  TwikitBridge_def

lemmas bridge_defs =
  initialize_def search_tweets_def get_trending_def handle_request_def dispatch_def
  bindE_def dict_get_def getattr_default_def hasattr_def getattr_def py_iter_def
  extract_media_def extract_metrics_def parse_timestamp_def timestamp_of_def
  extract_user_def tweet_data_def map_tweet_def min_count_def slice_to_def map_trend_def
  envelope_result_def envelope_error_def or_zero_def not_initialized_def json_dumps_def
  parse_error_def server_error_def strip_def is_space_def codepoints_def main_def ready_def
  Let_def

section \<open>The precondition of search and trending\<close>

text \<open>
  C4. Whenever the bridge is not authenticated, \<^verbatim>\<open>search_tweets\<close> and \<^verbatim>\<open>get_trending\<close>
  return the NOT\_INITIALIZED payload, for every query and count. The collaborators are
  arbitrary and the world comes back as it went in, so the scraping client is not called.
\<close>

theorem not_initialized_gate:
  "\<not> initialized self \<Longrightarrow>
     search_tweets env self query count w =
       (PDict [(''success'', PBool False),
               (''error'', PStr ''Client not initialized. Call initialize first.''),
               (''type'', PStr ''NOT_INITIALIZED'')], w)
     \<and> get_trending env self count w =
       (PDict [(''success'', PBool False),
               (''error'', PStr ''Client not initialized. Call initialize first.''),
               (''type'', PStr ''NOT_INITIALIZED'')], w)"
  by (simp add: search_tweets_def get_trending_def not_initialized_def)

text \<open>On the stub, whose world counts the calls to the client: the count stays at 0.\<close>

theorem not_initialized_gate_witness:
  "\<not> initialized TwikitBridge
   \<and> search_tweets stub TwikitBridge (PStr ''cats'') (PInt 2) 0 =
       (PDict [(''success'', PBool False),
               (''error'', PStr ''Client not initialized. Call initialize first.''),
               (''type'', PStr ''NOT_INITIALIZED'')], 0)
   \<and> get_trending stub TwikitBridge (PInt 2) 0 =
       (PDict [(''success'', PBool False),
               (''error'', PStr ''Client not initialized. Call initialize first.''),
               (''type'', PStr ''NOT_INITIALIZED'')], 0)"
  using not_initialized_gate [of TwikitBridge stub "PStr ''cats''" "PInt 2" 0]
  by (simp add: TwikitBridge_def)

section \<open>initialize and the session state\<close>

lemma initialize_valid:
  assumes "\<forall>w. fst (login env usr eml pwd w) = Inr ()"
  shows "\<exists>w'. initialize env self usr eml pwd w =
       (PDict [(''success'', PBool True),
               (''message'', PStr ''Twikit client initialized successfully''),
               (''username'', usr)],
        \<lparr>client = Some (Client ''en-US''), initialized = True,
         username = usr, email = eml, password = pwd\<rparr>, w')"
proof -
  obtain r w' where l: "login env usr eml pwd w = (r, w')"
    by (cases "login env usr eml pwd w") auto
  with assms have "r = Inr ()" by (metis fst_conv)
  with l show ?thesis by (simp add: initialize_def)
qed

lemma initialize_n_valid:
  assumes "\<forall>w. fst (login env usr eml pwd w) = Inr ()"
  shows "fst (initialize_n env n self usr eml pwd w) =
           replicate n
             (PDict [(''success'', PBool True),
                     (''message'', PStr ''Twikit client initialized successfully''),
                     (''username'', usr)])
       \<and> fst (snd (initialize_n env n self usr eml pwd w)) =
           (if n = 0 then self
            else \<lparr>client = Some (Client ''en-US''), initialized = True,
                  username = usr, email = eml, password = pwd\<rparr>)"
proof (induction n arbitrary: self w)
  case 0
  show ?case by simp
next
  case (Suc n)
  let ?b = "\<lparr>client = Some (Client ''en-US''), initialized = True,
         username = usr, email = eml, password = pwd\<rparr>"
  obtain w' where i: "initialize env self usr eml pwd w =
       (PDict [(''success'', PBool True),
               (''message'', PStr ''Twikit client initialized successfully''),
               (''username'', usr)], ?b, w')"
    using initialize_valid [OF assms] by blast
  obtain rs s w'' where e: "initialize_n env n ?b usr eml pwd w' = (rs, s, w'')"
    by (cases "initialize_n env n ?b usr eml pwd w'") auto
  from Suc.IH [of ?b w'] e show ?case
    by (simp add: i)
qed

lemma initialize_flag:
  "initialize env self usr eml pwd w = (res, self', w') \<Longrightarrow>
     initialized self' =
       (initialized self
        \<or> (\<exists>u. res = PDict [(''success'', PBool True),
                       (''message'', PStr ''Twikit client initialized successfully''),
                       (''username'', u)]))"
  by (auto simp: initialize_def Let_def split: prod.splits sum.splits exn.splits)

text \<open>
  C3, as the code has it. When \<^verbatim>\<open>login\<close> raises the library's exception, \<^verbatim>\<open>initialize\<close>
  returns the AUTH\_ERROR payload and leaves the \<^verbatim>\<open>initialized\<close> flag as it was. The stored
  username, email and password are the ones of this call, and the client is a fresh one:
  they are assigned before the login is attempted.
\<close>

theorem auth_failure_keeps_flag:
  assumes "login env usr eml pwd w = (Inl (TwikitException m), w')"
  shows "initialize env self usr eml pwd w =
           (PDict [(''success'', PBool False),
                   (''error'', PStr (''Twikit authentication failed: '' @ m)),
                   (''type'', PStr ''AUTH_ERROR'')],
            self\<lparr>username := usr, email := eml, password := pwd,
                 client := Some (Client ''en-US'')\<rparr>, w')
       \<and> initialized (fst (snd (initialize env self usr eml pwd w))) = initialized self"
  using assms by (simp add: initialize_def)

theorem auth_failure_keeps_flag_witness:
  "login stub (PStr ''u'') (PStr ''e'') (PStr ''bad'') 0
     = (Inl (TwikitException ''bad credentials''), 1)
   \<and> initialize stub TwikitBridge (PStr ''u'') (PStr ''e'') (PStr ''bad'') 0 =
       (PDict [(''success'', PBool False),
               (''error'', PStr ''Twikit authentication failed: bad credentials''),
               (''type'', PStr ''AUTH_ERROR'')],
        \<lparr>client = Some (Client ''en-US''), initialized = False,
         username = PStr ''u'', email = PStr ''e'', password = PStr ''bad''\<rparr>, 1)
   \<and> initialized (fst (snd (initialize stub TwikitBridge (PStr ''u'') (PStr ''e'')
                                (PStr ''bad'') 0))) = initialized TwikitBridge"
proof -
  have h: "login stub (PStr ''u'') (PStr ''e'') (PStr ''bad'') 0
             = (Inl (TwikitException ''bad credentials''), 1)"
    by (simp add: stub_def)
  show ?thesis
    using h auth_failure_keeps_flag [OF h, of TwikitBridge]
    by (simp add: TwikitBridge_def)
qed

text \<open>
  C3 as stated fails: a fresh bridge has no username, and after a login that the client
  rejects it holds the rejected one.
\<close>

theorem auth_failure_overwrites_identity:
  "login stub (PStr ''u'') (PStr ''e'') (PStr ''bad'') 0
     = (Inl (TwikitException ''bad credentials''), 1)
   \<and> fst (initialize stub TwikitBridge (PStr ''u'') (PStr ''e'') (PStr ''bad'') 0) =
       PDict [(''success'', PBool False),
              (''error'', PStr ''Twikit authentication failed: bad credentials''),
              (''type'', PStr ''AUTH_ERROR'')]
   \<and> username TwikitBridge = PNone
   \<and> username (fst (snd (initialize stub TwikitBridge (PStr ''u'') (PStr ''e'')
                              (PStr ''bad'') 0))) = PStr ''u''"
  by (simp add: stub_defs bridge_defs)

text \<open>
  C8. With credentials that the client accepts whenever it is asked, each of \<open>n + 1\<close> calls
  of \<^verbatim>\<open>initialize\<close> in a row returns the success payload, and the bridge after the last
  call is the bridge after the first.
\<close>

theorem initialize_idempotent:
  assumes "\<forall>w. fst (login env usr eml pwd w) = Inr ()"
  shows "fst (initialize_n env (Suc n) self usr eml pwd w) =
           replicate (Suc n)
             (PDict [(''success'', PBool True),
                     (''message'', PStr ''Twikit client initialized successfully''),
                     (''username'', usr)])
       \<and> fst (snd (initialize_n env (Suc n) self usr eml pwd w)) =
           fst (snd (initialize env self usr eml pwd w))"
proof -
  obtain w' where i: "initialize env self usr eml pwd w =
       (PDict [(''success'', PBool True),
               (''message'', PStr ''Twikit client initialized successfully''),
               (''username'', usr)],
        \<lparr>client = Some (Client ''en-US''), initialized = True,
         username = usr, email = eml, password = pwd\<rparr>, w')"
    using initialize_valid [OF assms] by blast
  show ?thesis
    using initialize_n_valid [OF assms, of "Suc n" self w] i
    by (simp del: initialize_n.simps)
qed

theorem initialize_idempotent_witness:
  "(\<forall>w. fst (login stub (PStr ''u'') (PStr ''e'') (PStr ''p'') w) = Inr ())
   \<and> fst (initialize_n stub (Suc (Suc (Suc 0))) TwikitBridge
            (PStr ''u'') (PStr ''e'') (PStr ''p'') 0) =
       replicate (Suc (Suc (Suc 0)))
         (PDict [(''success'', PBool True),
                 (''message'', PStr ''Twikit client initialized successfully''),
                 (''username'', PStr ''u'')])
   \<and> fst (snd (initialize_n stub (Suc (Suc (Suc 0))) TwikitBridge
                 (PStr ''u'') (PStr ''e'') (PStr ''p'') 0)) = logged_in
   \<and> fst (snd (initialize stub TwikitBridge (PStr ''u'') (PStr ''e'') (PStr ''p'') 0))
       = logged_in"
proof -
  have h: "\<forall>w. fst (login stub (PStr ''u'') (PStr ''e'') (PStr ''p'') w) = Inr ()"
    by (simp add: stub_def)
  have one: "fst (snd (initialize stub TwikitBridge (PStr ''u'') (PStr ''e'') (PStr ''p'') 0))
       = logged_in"
    by (simp add: stub_defs initialize_def)
  show ?thesis
    using h one initialize_idempotent [OF h, of "Suc (Suc 0)" TwikitBridge 0]
    by (simp del: initialize_n.simps replicate.simps)
qed

section \<open>The dispatcher and the protocol loop\<close>

lemma dict_get_PDict [simp]:
  "dict_get (PDict kvs) key dflt = Inr (case map_of kvs key of None \<Rightarrow> dflt | Some v \<Rightarrow> v)"
  by (simp add: dict_get_def)

lemma dict_get_not_PDict:
  "\<forall>kvs. d \<noteq> PDict kvs \<Longrightarrow>
     dict_get d key dflt =
       Inl (OtherException ([CHR 0x27] @ type_name d @ [CHR 0x27]
              @ '' object has no attribute '' @ [CHR 0x27] @ ''get'' @ [CHR 0x27]))"
  by (cases d) (simp_all add: dict_get_def)

lemma dispatch_id:
  "dispatch env self method params rid w = (Inr r, self', w') \<Longrightarrow>
     dict_get r ''id'' PNone = Inr rid"
  by (auto simp: dispatch_def bindE_def envelope_result_def envelope_error_def
           split: if_splits prod.splits sum.splits)

lemma handle_request_PDict:
  "\<exists>r self' w'. handle_request env self (PDict kvs) w = (Inr r, self', w')
     \<and> dict_get r ''id'' PNone = dict_get (PDict kvs) ''id'' PNone"
proof -
  let ?m = "case map_of kvs ''method'' of None \<Rightarrow> PNone | Some v \<Rightarrow> v"
  let ?p = "case map_of kvs ''params'' of None \<Rightarrow> PDict [] | Some v \<Rightarrow> v"
  let ?i = "case map_of kvs ''id'' of None \<Rightarrow> PNone | Some v \<Rightarrow> v"
  obtain r self' w' where d: "dispatch env self ?m ?p ?i w = (r, self', w')"
    by (cases "dispatch env self ?m ?p ?i w") auto
  show ?thesis
  proof (cases r)
    case (Inl ex)
    with d show ?thesis
      by (simp add: handle_request_def bindE_def envelope_error_def)
  next
    case (Inr resp)
    with d have "dict_get resp ''id'' PNone = Inr ?i" by (simp add: dispatch_id)
    with d Inr show ?thesis
      by (simp add: handle_request_def bindE_def)
  qed
qed

lemma handle_request_not_PDict:
  "\<forall>kvs. request \<noteq> PDict kvs \<Longrightarrow>
     handle_request env self request w =
       (Inl (OtherException ([CHR 0x27] @ type_name request @ [CHR 0x27]
              @ '' object has no attribute '' @ [CHR 0x27] @ ''get'' @ [CHR 0x27])), self, w)"
  by (simp add: handle_request_def bindE_def dict_get_not_PDict)

lemma main_loop_out:
  "main_loop env lines self w out =
     (case main_loop env lines self w [] of (later, s, v) \<Rightarrow> (out @ later, s, v))"
proof (induction lines arbitrary: self w out)
  case Nil
  show ?case by simp
next
  case (Cons line rest)
  have step: "\<And>s v x. main_loop env rest s v (out @ [x]) =
      (case main_loop env rest s v [x] of (later, s', v') \<Rightarrow> (out @ later, s', v'))"
  proof -
    fix s v x
    have a: "main_loop env rest s v (out @ [x]) =
      (case main_loop env rest s v [] of (later, s', v') \<Rightarrow> ((out @ [x]) @ later, s', v'))"
      by (rule Cons.IH)
    have b: "main_loop env rest s v [x] =
      (case main_loop env rest s v [] of (later, s', v') \<Rightarrow> ([x] @ later, s', v'))"
      by (rule Cons.IH)
    show "main_loop env rest s v (out @ [x]) =
      (case main_loop env rest s v [x] of (later, s', v') \<Rightarrow> (out @ later, s', v'))"
      by (simp add: a b split: prod.splits)
  qed
  show ?case
    by (simp add: step Cons.IH [of self w out]
          split: loads_result.splits sum.splits prod.splits)
qed

lemma main_loop_decoded:
  assumes "line \<noteq> []" and "strip line \<noteq> []"
    and "json_loads env (strip line) = Decoded request"
    and "handle_request env self request w = (r, self', w')"
  shows "main_loop env (line # rest) self w out =
           main_loop env rest self' w'
             (out @ [case r of
                       Inl ex \<Rightarrow> server_error env ex
                     | Inr response \<Rightarrow>
                         (if json_serializable response then response
                          else server_error env (OtherException ''Object of type object is not JSON serializable''))])"
  using assms by (cases r) (simp_all add: json_dumps_def)

lemma dispatch_flag:
  "dispatch env self method params rid w = (r, self', w') \<Longrightarrow>
     initialized self' =
       (initialized self
        \<or> (method = PStr ''initialize''
           \<and> (\<exists>usr i. r = Inr (envelope_result
                  (PDict [(''success'', PBool True),
                          (''message'', PStr ''Twikit client initialized successfully''),
                          (''username'', usr)]) i))))"
  by (auto simp: dispatch_def bindE_def envelope_result_def envelope_error_def
           split: if_splits prod.splits sum.splits dest: initialize_flag)

lemma dispatch_raises:
  "dispatch env self method params rid w = (Inl ex, self', w') \<Longrightarrow>
     self' = self \<and> w' = w
     \<and> method \<in> {PStr ''initialize'', PStr ''search'', PStr ''trending''}"
  by (auto simp: dispatch_def bindE_def split: if_splits prod.splits sum.splits)

lemma handle_request_flag:
  "handle_request env self request w = (resp, self', w') \<Longrightarrow>
     initialized self' =
       (initialized self
        \<or> (dict_get request ''method'' PNone = Inr (PStr ''initialize'')
           \<and> (\<exists>usr rid. resp = Inr (PDict
                  [(''jsonrpc'', PStr ''2.0''),
                   (''result'', PDict [(''success'', PBool True),
                      (''message'', PStr ''Twikit client initialized successfully''),
                      (''username'', usr)]),
                   (''id'', rid)]))))"
proof (cases "\<exists>kvs. request = PDict kvs")
  case False
  assume h: "handle_request env self request w = (resp, self', w')"
  from False have "\<forall>kvs. request \<noteq> PDict kvs" by blast
  from handle_request_not_PDict [OF this, of env self w] h
  have "self' = self" and "isl resp" by auto
  moreover from False have "isl (dict_get request ''method'' PNone)"
    by (cases request) (auto simp: dict_get_def)
  ultimately show ?thesis by auto
next
  case True
  assume h: "handle_request env self request w = (resp, self', w')"
  from True obtain kvs where req: "request = PDict kvs" by blast
  let ?m = "case map_of kvs ''method'' of None \<Rightarrow> PNone | Some v \<Rightarrow> v"
  let ?p = "case map_of kvs ''params'' of None \<Rightarrow> PDict [] | Some v \<Rightarrow> v"
  let ?i = "case map_of kvs ''id'' of None \<Rightarrow> PNone | Some v \<Rightarrow> v"
  obtain r s v where d: "dispatch env self ?m ?p ?i w = (r, s, v)"
    by (cases "dispatch env self ?m ?p ?i w") auto
  note f = dispatch_flag [OF d]
  show ?thesis
  proof (cases r)
    case (Inl ex)
    with d h req have "self' = s"
      and "resp = Inr (envelope_error
                       (PDict [(''code'', PInt (- 32603)),
                               (''message'', PStr (''Internal error: '' @ str_exn ex)),
                               (''data'', PStr (format_exc env ex))]) ?i)"
      by (auto simp: handle_request_def bindE_def)
    with f Inl show ?thesis by (auto simp: envelope_error_def)
  next
    case (Inr response)
    with d h req have "self' = s" and "resp = Inr response"
      by (auto simp: handle_request_def bindE_def)
    with f Inr req show ?thesis by (auto simp: envelope_result_def)
  qed
qed

lemma main_loop_initialized:
  "main_loop env lines self w out = (out', self', w') \<Longrightarrow>
     initialized self \<Longrightarrow> initialized self'"
proof (induction lines arbitrary: self w out)
  case Nil
  then show ?case by simp
next
  case (Cons line rest)
  show ?case
  proof (cases "line = [] \<or> strip line = []")
    case True
    with Cons show ?thesis by (auto split: if_splits)
  next
    case False
    show ?thesis
    proof (cases "json_loads env (strip line)")
      case (JSONDecodeError detail)
      with False Cons show ?thesis by auto
    next
      case (LoadsError ex)
      with False Cons show ?thesis by auto
    next
      case (Decoded request)
      obtain r self1 w1 where h: "handle_request env self request w = (r, self1, w1)"
        by (cases "handle_request env self request w") auto
      from handle_request_flag [OF h] Cons.prems(2) have i1: "initialized self1"
        by simp
      from False Decoded h Cons.prems(1) obtain out1
        where "main_loop env rest self1 w1 out1 = (out', self', w')"
        by (auto split: sum.splits)
      then show ?thesis using i1 by (rule Cons.IH)
    qed
  qed
qed

section \<open>The authenticated flag over the life of the process\<close>

text \<open>
  C7. A new bridge is not initialized. One request leaves the flag set if it was set, and
  sets it only when the request is an \<^verbatim>\<open>initialize\<close> whose result is the success payload;
  \<^verbatim>\<open>search_tweets\<close> and \<^verbatim>\<open>get_trending\<close> return no bridge at all, they cannot touch it. Over
  any further input the loop reads, a flag that is set stays set.
\<close>

theorem initialized_never_reset:
  assumes "handle_request env self request w = (resp, self', w')"
    and "main_loop env lines self0 w0 out = (out', self1, w1)"
  shows "\<not> initialized TwikitBridge
       \<and> initialized self' =
           (initialized self
            \<or> (dict_get request ''method'' PNone = Inr (PStr ''initialize'')
               \<and> (\<exists>usr rid. resp = Inr (PDict
                      [(''jsonrpc'', PStr ''2.0''),
                       (''result'', PDict [(''success'', PBool True),
                          (''message'', PStr ''Twikit client initialized successfully''),
                          (''username'', usr)]),
                       (''id'', rid)]))))
       \<and> (initialized self0 \<longrightarrow> initialized self1)"
  using handle_request_flag [OF assms(1)] main_loop_initialized [OF assms(2)]
  by (simp add: TwikitBridge_def)

theorem initialized_never_reset_witness:
  \<open>handle_request stub TwikitBridge
      (PDict [(''method'', PStr ''initialize''),
              (''params'', PDict [(''username'', PStr ''u''), (''email'', PStr ''e''),
                                  (''password'', PStr ''p'')]),
              (''id'', PInt 1)]) 0 =
      (Inr (PDict [(''jsonrpc'', PStr ''2.0''),
                   (''result'', PDict [(''success'', PBool True),
                      (''message'', PStr ''Twikit client initialized successfully''),
                      (''username'', PStr ''u'')]),
                   (''id'', PInt 1)]), logged_in, 1)
   \<and> main_loop stub
        [codepoints ''{"method":"search","params":null,"id":7}'' @ [10],
         codepoints ''garbage'' @ [10], codepoints ''[1]'' @ [10]] logged_in 1 []
        = (fst (main_loop stub
             [codepoints ''{"method":"search","params":null,"id":7}'' @ [10],
              codepoints ''garbage'' @ [10], codepoints ''[1]'' @ [10]] logged_in 1 []), logged_in, 1)
   \<and> \<not> initialized TwikitBridge
   \<and> initialized logged_in\<close>
proof -
  have h: \<open>handle_request stub TwikitBridge
      (PDict [(''method'', PStr ''initialize''),
              (''params'', PDict [(''username'', PStr ''u''), (''email'', PStr ''e''),
                                  (''password'', PStr ''p'')]),
              (''id'', PInt 1)]) 0 =
      (Inr (PDict [(''jsonrpc'', PStr ''2.0''),
                   (''result'', PDict [(''success'', PBool True),
                      (''message'', PStr ''Twikit client initialized successfully''),
                      (''username'', PStr ''u'')]),
                   (''id'', PInt 1)]), logged_in, 1)\<close>
    by (simp add: stub_defs bridge_defs)
  have r: \<open>main_loop stub
        [codepoints ''{"method":"search","params":null,"id":7}'' @ [10],
         codepoints ''garbage'' @ [10], codepoints ''[1]'' @ [10]] logged_in 1 []
        = (fst (main_loop stub
             [codepoints ''{"method":"search","params":null,"id":7}'' @ [10],
              codepoints ''garbage'' @ [10], codepoints ''[1]'' @ [10]] logged_in 1 []), logged_in, 1)\<close>
    by (simp add: stub_defs bridge_defs)
  show ?thesis
    using h r initialized_never_reset [OF h r]
    by (simp add: logged_in_def del: main_loop.simps)
qed

section \<open>One line in, one line out\<close>





text \<open>
  C2, as the code has it. A line that is not blank and that \<^verbatim>\<open>json.loads\<close> accepts makes the
  loop print exactly one response. When the decoded value is a JSON object, the dispatcher
  returns a response with the request's \<^verbatim>\<open>id\<close> (null when the request has none), and that
  response is what is printed whenever \<^verbatim>\<open>json.dumps\<close> accepts it. When the decoded value is
  not an object, or the response cannot be serialised, the loop prints its own \<open>-32603\<close>
  \<^verbatim>\<open>Server error\<close> response, whose id is null.
\<close>

theorem one_response_per_request:
  assumes "line \<noteq> []" and "strip line \<noteq> []"
    and "json_loads env (strip line) = Decoded request"
  shows "\<exists>resp self' w'.
           main_loop env (line # rest) self w out =
             (case main_loop env rest self' w' [] of
                (later, s, v) \<Rightarrow> (out @ [resp] @ later, s, v))
         \<and> (case request of
               PDict kvs \<Rightarrow>
                 (\<exists>r. handle_request env self request w = (Inr r, self', w')
                    \<and> dict_get r ''id'' PNone = dict_get request ''id'' PNone
                    \<and> resp = (if json_serializable r then r
                               else server_error env
                                      (OtherException ''Object of type object is not JSON serializable'')))
             | _ \<Rightarrow>
                 (\<exists>ex. resp = server_error env ex) \<and> self' = self \<and> w' = w)
         \<and> ((\<exists>ex. resp = server_error env ex) \<longrightarrow> dict_get resp ''id'' PNone = Inr PNone)"
proof (cases "\<exists>kvs. request = PDict kvs")
  case True
  then obtain kvs where req: "request = PDict kvs" by blast
  obtain r self' w' where h: "handle_request env self (PDict kvs) w = (Inr r, self', w')"
    and i: "dict_get r ''id'' PNone = dict_get (PDict kvs) ''id'' PNone"
    using handle_request_PDict [of env self kvs w] by blast
  let ?resp = "if json_serializable r then r
               else server_error env (OtherException ''Object of type object is not JSON serializable'')"
  have "main_loop env (line # rest) self w out = main_loop env rest self' w' (out @ [?resp])"
    using main_loop_decoded [OF assms, of self w "Inr r" self' w'] h req by simp
  also have "\<dots> = (case main_loop env rest self' w' [] of
                       (later, s, v) \<Rightarrow> ((out @ [?resp]) @ later, s, v))"
    by (rule main_loop_out)
  finally have "main_loop env (line # rest) self w out =
      (case main_loop env rest self' w' [] of (later, s, v) \<Rightarrow> (out @ [?resp] @ later, s, v))"
    by simp
  moreover have "\<And>ex. dict_get (server_error env ex) ''id'' PNone = Inr PNone"
    by (simp add: server_error_def envelope_error_def)
  ultimately show ?thesis using h i req
    by (intro exI [of _ ?resp] exI [of _ self'] exI [of _ w'])
       (auto simp del: main_loop.simps)
next
  case False
  let ?ex = "OtherException ([CHR 0x27] @ type_name request @ [CHR 0x27]
              @ '' object has no attribute '' @ [CHR 0x27] @ ''get'' @ [CHR 0x27])"
  from False have h: "handle_request env self request w = (Inl ?ex, self, w)"
    by (simp add: handle_request_not_PDict)
  have "main_loop env (line # rest) self w out =
          main_loop env rest self w (out @ [server_error env ?ex])"
    using main_loop_decoded [OF assms h] by simp
  also have "\<dots> = (case main_loop env rest self w [] of
                       (later, s, v) \<Rightarrow> ((out @ [server_error env ?ex]) @ later, s, v))"
    by (rule main_loop_out)
  finally have "main_loop env (line # rest) self w out =
      (case main_loop env rest self w [] of
         (later, s, v) \<Rightarrow> (out @ [server_error env ?ex] @ later, s, v))"
    by simp
  moreover have "dict_get (server_error env ?ex) ''id'' PNone = Inr PNone"
    by (simp add: server_error_def envelope_error_def)
  moreover have "(case request of PDict kvs \<Rightarrow> False | _ \<Rightarrow> True)"
    using False by (cases request) auto
  ultimately show ?thesis
    by (intro exI [of _ "server_error env ?ex"] exI [of _ self] exI [of _ w])
       (cases request; auto simp del: main_loop.simps)
qed

theorem one_response_per_request_witness:
  \<open>codepoints ''{"method":"trending","params":{"count":1},"id":2}'' @ [10] \<noteq> []
   \<and> strip (codepoints ''{"method":"trending","params":{"count":1},"id":2}'' @ [10]) \<noteq> []
   \<and> json_loads stub
        (strip (codepoints ''{"method":"trending","params":{"count":1},"id":2}'' @ [10]))
       = Decoded (PDict [(''method'', PStr ''trending''),
                     (''params'', PDict [(''count'', PInt 1)]),
                     (''id'', PInt 2)])
   \<and> (\<exists>resp self' w'.
         main_loop stub [codepoints ''{"method":"trending","params":{"count":1},"id":2}'' @ [10]]
           logged_in 1 [ready]
           = (case main_loop stub [] self' w' [] of
                (later, s, v) \<Rightarrow> ([ready] @ [resp] @ later, s, v))
       \<and> handle_request stub logged_in
            (PDict [(''method'', PStr ''trending''),
                    (''params'', PDict [(''count'', PInt 1)]),
                    (''id'', PInt 2)]) 1 = (Inr resp, self', w')
       \<and> dict_get resp ''id'' PNone = Inr (PInt 2))\<close>
proof -
  let ?line = \<open>codepoints ''{"method":"trending","params":{"count":1},"id":2}'' @ [10]\<close>
  let ?req = "PDict [(''method'', PStr ''trending''),
                     (''params'', PDict [(''count'', PInt 1)]),
                     (''id'', PInt 2)]"
  have h1: "?line \<noteq> []" by simp
  have h2: "strip ?line \<noteq> []"
    by (simp add: strip_def is_space_def codepoints_def)
  have h3: "json_loads stub (strip ?line) = Decoded ?req"
    by (simp add: stub_defs strip_def is_space_def codepoints_def)
  have s: "\<And>r self' w'. handle_request stub logged_in ?req 1 = (Inr r, self', w')
             \<Longrightarrow> json_serializable r"
    by (auto simp: stub_defs bridge_defs)
  from one_response_per_request [OF h1 h2 h3, of "[]" logged_in 1 "[ready]"]
  obtain resp self' w' r where
    m: "main_loop stub [?line] logged_in 1 [ready]
          = (case main_loop stub [] self' w' [] of
               (later, s, v) \<Rightarrow> ([ready] @ [resp] @ later, s, v))" and
    h: "handle_request stub logged_in ?req 1 = (Inr r, self', w')" and
    i: "dict_get r ''id'' PNone = dict_get ?req ''id'' PNone" and
    e: "resp = (if json_serializable r then r
                else server_error stub (OtherException ''Object of type object is not JSON serializable''))"
    by (auto simp del: main_loop.simps)
  from s [OF h] e have "resp = r" by simp
  with m h i have "main_loop stub [?line] logged_in 1 [ready]
          = (case main_loop stub [] self' w' [] of
               (later, s, v) \<Rightarrow> ([ready] @ [resp] @ later, s, v))
       \<and> handle_request stub logged_in ?req 1 = (Inr resp, self', w')
       \<and> dict_get resp ''id'' PNone = Inr (PInt 2)"
    by (simp del: main_loop.simps)
  then have "\<exists>resp self' w'.
         main_loop stub [?line] logged_in 1 [ready]
           = (case main_loop stub [] self' w' [] of
                (later, s, v) \<Rightarrow> ([ready] @ [resp] @ later, s, v))
       \<and> handle_request stub logged_in ?req 1 = (Inr resp, self', w')
       \<and> dict_get resp ''id'' PNone = Inr (PInt 2)"
    by blast
  with h1 h2 h3 show ?thesis by (intro conjI)
qed

text \<open>
  C2 as stated fails: the line \<^verbatim>\<open>42\<close> is decoded, it is no parse error, and its response
  carries a null id all the same.
\<close>

theorem decoded_number_gets_null_id:
  "json_loads stub (strip (codepoints ''42'' @ [10])) = Decoded (PInt 42)
   \<and> fst (main stub [codepoints ''42'' @ [10]] 0) =
       [PDict [(''status'', PStr ''ready''), (''version'', PStr ''1.0.0'')],
        PDict [(''jsonrpc'', PStr ''2.0''),
               (''error'', PDict
                  [(''code'', PInt (- 32603)),
                   (''message'', PStr (''Server error: '' @ [CHR 0x27] @ ''int'' @ [CHR 0x27]
                       @ '' object has no attribute '' @ [CHR 0x27] @ ''get'' @ [CHR 0x27])),
                   (''data'', PStr (''Traceback (most recent call last): '' @ [CHR 0x27]
                       @ ''int'' @ [CHR 0x27] @ '' object has no attribute '' @ [CHR 0x27]
                       @ ''get'' @ [CHR 0x27]))]),
               (''id'', PNone)]]"
  by (simp add: stub_defs bridge_defs)

section \<open>Failures of a request stay in its response\<close>

text \<open>
  C1, as the code has it. A decoded line always yields one response and the loop goes on
  with the next line. When the decoded value is not a JSON object, \<^verbatim>\<open>request.get\<close> raises
  before the dispatcher's \<^verbatim>\<open>try\<close>, and the loop itself answers with code \<open>-32603\<close>, the
  message \<^verbatim>\<open>Server error: <detail>\<close>, the traceback and a null id. When the body of the
  dispatcher's \<^verbatim>\<open>try\<close> raises (only a known method reads \<^verbatim>\<open>params\<close>, and the handlers
  catch what the client raises), the dispatcher answers with code \<open>-32603\<close>, the message
  \<^verbatim>\<open>Internal error: <detail>\<close>, the traceback and the request's id, and the bridge and the
  world are as before.
\<close>

theorem request_failures_contained:
  assumes "line \<noteq> []" and "strip line \<noteq> []"
    and "json_loads env (strip line) = Decoded request"
  shows "(\<exists>resp self' w'.
            main_loop env (line # rest) self w out
              = main_loop env rest self' w' (out @ [resp]))
       \<and> ((\<forall>kvs. request \<noteq> PDict kvs) \<longrightarrow>
            main_loop env (line # rest) self w out
              = main_loop env rest self w
                  (out @ [PDict [(''jsonrpc'', PStr ''2.0''),
                     (''error'', PDict
                        [(''code'', PInt (- 32603)),
                         (''message'', PStr (''Server error: '' @ [CHR 0x27]
                             @ type_name request @ [CHR 0x27]
                             @ '' object has no attribute '' @ [CHR 0x27] @ ''get''
                             @ [CHR 0x27])),
                         (''data'', PStr (format_exc env (OtherException ([CHR 0x27]
                             @ type_name request @ [CHR 0x27]
                             @ '' object has no attribute '' @ [CHR 0x27] @ ''get''
                             @ [CHR 0x27]))))]),
                     (''id'', PNone)]]))
       \<and> (\<forall>method params rid ex self' w'.
            dict_get request ''method'' PNone = Inr method
            \<and> dict_get request ''params'' (PDict []) = Inr params
            \<and> dict_get request ''id'' PNone = Inr rid
            \<and> dispatch env self method params rid w = (Inl ex, self', w') \<longrightarrow>
              handle_request env self request w =
                (Inr (PDict [(''jsonrpc'', PStr ''2.0''),
                   (''error'', PDict
                      [(''code'', PInt (- 32603)),
                       (''message'', PStr (''Internal error: '' @ str_exn ex)),
                       (''data'', PStr (format_exc env ex))]),
                   (''id'', rid)]), self, w)
              \<and> method \<in> {PStr ''initialize'', PStr ''search'', PStr ''trending''})"
proof (intro conjI allI impI)
  obtain r self' w' where h: "handle_request env self request w = (r, self', w')"
    by (cases "handle_request env self request w") auto
  from main_loop_decoded [OF assms h]
  show "\<exists>resp self' w'. main_loop env (line # rest) self w out
          = main_loop env rest self' w' (out @ [resp])"
    by blast
next
  assume n: "\<forall>kvs. request \<noteq> PDict kvs"
  from main_loop_decoded [OF assms handle_request_not_PDict [OF n]]
  show "main_loop env (line # rest) self w out
              = main_loop env rest self w
                  (out @ [PDict [(''jsonrpc'', PStr ''2.0''),
                     (''error'', PDict
                        [(''code'', PInt (- 32603)),
                         (''message'', PStr (''Server error: '' @ [CHR 0x27]
                             @ type_name request @ [CHR 0x27]
                             @ '' object has no attribute '' @ [CHR 0x27] @ ''get''
                             @ [CHR 0x27])),
                         (''data'', PStr (format_exc env (OtherException ([CHR 0x27]
                             @ type_name request @ [CHR 0x27]
                             @ '' object has no attribute '' @ [CHR 0x27] @ ''get''
                             @ [CHR 0x27]))))]),
                     (''id'', PNone)]])"
    by (simp add: server_error_def envelope_error_def del: main_loop.simps)
next
  fix m p rid ex self' w'
  assume a: "dict_get request ''method'' PNone = Inr m
            \<and> dict_get request ''params'' (PDict []) = Inr p
            \<and> dict_get request ''id'' PNone = Inr rid
            \<and> dispatch env self m p rid w = (Inl ex, self', w')"
  then have d: "dispatch env self m p rid w = (Inl ex, self', w')" by simp
  from dispatch_raises [OF d] have u: "self' = self" "w' = w"
    and k: "m \<in> {PStr ''initialize'', PStr ''search'', PStr ''trending''}" by simp_all
  from a d u show "handle_request env self request w =
                (Inr (PDict [(''jsonrpc'', PStr ''2.0''),
                   (''error'', PDict
                      [(''code'', PInt (- 32603)),
                       (''message'', PStr (''Internal error: '' @ str_exn ex)),
                       (''data'', PStr (format_exc env ex))]),
                   (''id'', rid)]), self, w)"
    by (simp add: handle_request_def bindE_def envelope_error_def)
  from k show "m \<in> {PStr ''initialize'', PStr ''search'', PStr ''trending''}" .
qed

text \<open>On the line \<^verbatim>\<open>[1]\<close>, and on a \<^verbatim>\<open>search\<close> whose \<^verbatim>\<open>params\<close> is null.\<close>

theorem request_failures_contained_witness:
  \<open>json_loads stub (strip (codepoints ''[1]'' @ [10])) = Decoded (PList [PInt 1])
   \<and> main_loop stub [codepoints ''[1]'' @ [10]] TwikitBridge 0 [ready]
       = ([ready,
           PDict [(''jsonrpc'', PStr ''2.0''),
                  (''error'', PDict
                     [(''code'', PInt (- 32603)),
                      (''message'', PStr (''Server error: '' @ [CHR 0x27] @ ''list''
                          @ [CHR 0x27] @ '' object has no attribute '' @ [CHR 0x27]
                          @ ''get'' @ [CHR 0x27])),
                      (''data'', PStr (''Traceback (most recent call last): '' @ [CHR 0x27]
                          @ ''list'' @ [CHR 0x27] @ '' object has no attribute ''
                          @ [CHR 0x27] @ ''get'' @ [CHR 0x27]))]),
                  (''id'', PNone)]], TwikitBridge, 0)
   \<and> json_loads stub
        (strip (codepoints ''{"method":"search","params":null,"id":7}'' @ [10]))
       = Decoded (PDict [(''method'', PStr ''search''), (''params'', PNone),
                         (''id'', PInt 7)])
   \<and> dispatch stub logged_in (PStr ''search'') PNone (PInt 7) 1
       = (Inl (OtherException ([CHR 0x27] @ ''NoneType'' @ [CHR 0x27]
            @ '' object has no attribute '' @ [CHR 0x27] @ ''get'' @ [CHR 0x27])),
          logged_in, 1)
   \<and> handle_request stub logged_in
        (PDict [(''method'', PStr ''search''), (''params'', PNone), (''id'', PInt 7)]) 1
       = (Inr (PDict [(''jsonrpc'', PStr ''2.0''),
                  (''error'', PDict
                     [(''code'', PInt (- 32603)),
                      (''message'', PStr (''Internal error: '' @ [CHR 0x27] @ ''NoneType''
                          @ [CHR 0x27] @ '' object has no attribute '' @ [CHR 0x27]
                          @ ''get'' @ [CHR 0x27])),
                      (''data'', PStr (''Traceback (most recent call last): '' @ [CHR 0x27]
                          @ ''NoneType'' @ [CHR 0x27] @ '' object has no attribute ''
                          @ [CHR 0x27] @ ''get'' @ [CHR 0x27]))]),
                  (''id'', PInt 7)]), logged_in, 1)\<close>
proof -
  let ?l1 = "codepoints ''[1]'' @ [10]"
  let ?l2 = \<open>codepoints ''{"method":"search","params":null,"id":7}'' @ [10]\<close>
  let ?req = "PDict [(''method'', PStr ''search''), (''params'', PNone), (''id'', PInt 7)]"
  let ?ex = "OtherException ([CHR 0x27] @ ''NoneType'' @ [CHR 0x27]
            @ '' object has no attribute '' @ [CHR 0x27] @ ''get'' @ [CHR 0x27])"
  have a1: "?l1 \<noteq> []" by simp
  have a2: "strip ?l1 \<noteq> []" by (simp add: strip_def is_space_def codepoints_def)
  have a3: "json_loads stub (strip ?l1) = Decoded (PList [PInt 1])"
    by (simp add: stub_defs strip_def is_space_def codepoints_def)
  have b1: "?l2 \<noteq> []" by simp
  have b2: "strip ?l2 \<noteq> []" by (simp add: strip_def is_space_def codepoints_def)
  have b3: "json_loads stub (strip ?l2) = Decoded ?req"
    by (simp add: stub_defs strip_def is_space_def codepoints_def)
  have d: "dispatch stub logged_in (PStr ''search'') PNone (PInt 7) 1 = (Inl ?ex, logged_in, 1)"
    by (simp add: dispatch_def bindE_def dict_get_def)
  from request_failures_contained [OF a1 a2 a3, of "[]" TwikitBridge 0 "[ready]"]
  have one: "main_loop stub [?l1] TwikitBridge 0 [ready]
       = ([ready,
           PDict [(''jsonrpc'', PStr ''2.0''),
                  (''error'', PDict
                     [(''code'', PInt (- 32603)),
                      (''message'', PStr (''Server error: '' @ [CHR 0x27] @ ''list''
                          @ [CHR 0x27] @ '' object has no attribute '' @ [CHR 0x27]
                          @ ''get'' @ [CHR 0x27])),
                      (''data'', PStr (''Traceback (most recent call last): '' @ [CHR 0x27]
                          @ ''list'' @ [CHR 0x27] @ '' object has no attribute ''
                          @ [CHR 0x27] @ ''get'' @ [CHR 0x27]))]),
                  (''id'', PNone)]], TwikitBridge, 0)"
    by (simp add: stub_def del: main_loop.simps(2))
  from request_failures_contained [OF b1 b2 b3, of "[]" logged_in 1 "[]"] d
  have two: "handle_request stub logged_in ?req 1
       = (Inr (PDict [(''jsonrpc'', PStr ''2.0''),
                  (''error'', PDict
                     [(''code'', PInt (- 32603)),
                      (''message'', PStr (''Internal error: '' @ [CHR 0x27] @ ''NoneType''
                          @ [CHR 0x27] @ '' object has no attribute '' @ [CHR 0x27]
                          @ ''get'' @ [CHR 0x27])),
                      (''data'', PStr (''Traceback (most recent call last): '' @ [CHR 0x27]
                          @ ''NoneType'' @ [CHR 0x27] @ '' object has no attribute ''
                          @ [CHR 0x27] @ ''get'' @ [CHR 0x27]))]),
                  (''id'', PInt 7)]), logged_in, 1)"
    by (simp add: stub_def del: main_loop.simps(2))
  from a3 one b3 d two show ?thesis by (intro conjI)
qed

text \<open>
  C1 as stated fails on its last part: the line \<^verbatim>\<open>[1]\<close> is valid JSON and no object, and
  the response it gets says \<^verbatim>\<open>Server error\<close>, not \<^verbatim>\<open>Internal error\<close>.
\<close>

theorem decoded_list_gets_server_error:
  "json_loads stub (strip (codepoints ''[1]'' @ [10])) = Decoded (PList [PInt 1])
   \<and> fst (main stub [codepoints ''[1]'' @ [10]] 0) =
       [PDict [(''status'', PStr ''ready''), (''version'', PStr ''1.0.0'')],
        PDict [(''jsonrpc'', PStr ''2.0''),
               (''error'', PDict
                  [(''code'', PInt (- 32603)),
                   (''message'', PStr (''Server error: '' @ [CHR 0x27] @ ''list'' @ [CHR 0x27]
                       @ '' object has no attribute '' @ [CHR 0x27] @ ''get'' @ [CHR 0x27])),
                   (''data'', PStr (''Traceback (most recent call last): '' @ [CHR 0x27]
                       @ ''list'' @ [CHR 0x27] @ '' object has no attribute '' @ [CHR 0x27]
                       @ ''get'' @ [CHR 0x27]))]),
               (''id'', PNone)]]"
  by (simp add: stub_defs bridge_defs)

section \<open>Batches: an item that fails to map is dropped, alone\<close>

lemma mapped_items_simps [simp]:
  "mapped_items [] = []"
  "mapped_items (Inl e # rs) = mapped_items rs"
  "mapped_items (Inr item # rs) = item # mapped_items rs"
  by (simp_all add: mapped_items_def)

lemma failed_count_simps [simp]:
  "failed_count [] = 0"
  "failed_count (Inl e # rs) = Suc (failed_count rs)"
  "failed_count (Inr item # rs) = failed_count rs"
  by (simp_all add: failed_count_def)

lemma failed_count_le: "failed_count rs \<le> length rs"
  by (simp add: failed_count_def)

lemma length_mapped_items: "length (mapped_items rs) = length rs - failed_count rs"
proof (induction rs)
  case Nil
  show ?case by simp
next
  case (Cons r rs)
  then show ?case using failed_count_le [of rs] by (cases r) (simp_all add: Suc_diff_le)
qed

lemma length_map_each: "length (fst (map_each env tweets w)) = length tweets"
proof (induction tweets arbitrary: w)
  case Nil
  show ?case by simp
next
  case (Cons tweet rest)
  obtain r w1 where m: "map_tweet env tweet w = (r, w1)"
    by (cases "map_tweet env tweet w") auto
  obtain rs w2 where e: "map_each env rest w1 = (rs, w2)"
    by (cases "map_each env rest w1") auto
  from Cons.IH [of w1] e have "length rs = length rest" by simp
  with m e show ?case by simp
qed

lemma tweets_loop_map_each:
  "tweets_loop env tweets results w =
     (results @ mapped_items (fst (map_each env tweets w)), snd (map_each env tweets w))"
proof (induction tweets arbitrary: results w)
  case Nil
  show ?case by simp
next
  case (Cons tweet rest)
  obtain r w1 where m: "map_tweet env tweet w = (r, w1)"
    by (cases "map_tweet env tweet w") auto
  show ?case
    by (cases r) (simp_all add: m Cons.IH split: prod.splits)
qed

lemma trends_loop_map:
  "trends_loop trends results = results @ mapped_items (map map_trend trends)"
proof (induction trends arbitrary: results)
  case Nil
  show ?case by simp
next
  case (Cons trend rest)
  show ?case by (cases "map_trend trend") (simp_all add: Cons.IH)
qed

text \<open>
  C6, as the code has it, on an authenticated bridge. \<^verbatim>\<open>search_tweets\<close>: when the client
  returns \<open>n\<close> tweets of which \<open>k\<close> fail to map, the payload is a success that holds the
  \<open>n - k\<close> mapped items in the client's order. \<^verbatim>\<open>get_trending\<close> with an integer count \<open>c\<close>:
  the client's list is first cut to \<^verbatim>\<open>trends[:min(c, n)]\<close>, and the payload is a success
  that holds, in order, the items of that slice that map.
\<close>

theorem batch_drops_failed_items:
  assumes "initialized self" and "client self \<noteq> None"
  shows "(search_tweet env query count w = (Inr tweets, w') \<longrightarrow>
            length (fst (map_each env tweets w')) = length tweets
          \<and> fst (search_tweets env self query count w) =
              PDict [(''success'', PBool True),
                     (''tweets'', PList (mapped_items (fst (map_each env tweets w')))),
                     (''count'', PInt (int (length tweets
                                  - failed_count (fst (map_each env tweets w'))))),
                     (''query'', query)])
       \<and> (get_trends env w = (Inr trends, w') \<longrightarrow>
            fst (get_trending env self (PInt c) w) =
              PDict [(''success'', PBool True),
                     (''trends'', PList (mapped_items (map map_trend
                        (slice_to trends (min c (int (length trends))))))),
                     (''count'', PInt (int (length (slice_to trends (min c (int (length trends))))
                        - failed_count (map map_trend
                            (slice_to trends (min c (int (length trends))))))))])"
proof (intro conjI impI)
  assume s: "search_tweet env query count w = (Inr tweets, w')"
  show "length (fst (map_each env tweets w')) = length tweets"
    by (rule length_map_each)
  show "fst (search_tweets env self query count w) =
          PDict [(''success'', PBool True),
                 (''tweets'', PList (mapped_items (fst (map_each env tweets w')))),
                 (''count'', PInt (int (length tweets
                              - failed_count (fst (map_each env tweets w'))))),
                 (''query'', query)]"
    using assms s
    by (auto simp: search_tweets_def tweets_loop_map_each length_mapped_items length_map_each)
next
  assume t: "get_trends env w = (Inr trends, w')"
  have m: "min_count (PInt c) (int (length trends)) = Inr (min c (int (length trends)))"
    by (simp add: min_count_def min_def)
  show "fst (get_trending env self (PInt c) w) =
          PDict [(''success'', PBool True),
                 (''trends'', PList (mapped_items (map map_trend
                    (slice_to trends (min c (int (length trends))))))),
                 (''count'', PInt (int (length (slice_to trends (min c (int (length trends))))
                    - failed_count (map map_trend
                        (slice_to trends (min c (int (length trends))))))))]"
    using assms t
    by (auto simp: get_trending_def m trends_loop_map length_mapped_items Let_def)
qed

text \<open>
  The stub's three tweets, the third of which fails, and its three trends with count 3,
  the third of which fails.
\<close>

theorem batch_drops_failed_items_witness:
  "initialized logged_in \<and> client logged_in \<noteq> None
   \<and> search_tweet stub (PStr ''cats'') (PInt 20) 0 = (Inr stub_tweets, 1)
   \<and> length stub_tweets = 3
   \<and> failed_count (fst (map_each stub stub_tweets 1)) = 1
   \<and> fst (search_tweets stub logged_in (PStr ''cats'') (PInt 20) 0) =
       PDict [(''success'', PBool True),
              (''tweets'', PList (mapped_items (fst (map_each stub stub_tweets 1)))),
              (''count'', PInt 2),
              (''query'', PStr ''cats'')]
   \<and> length (mapped_items (fst (map_each stub stub_tweets 1))) = 2
   \<and> get_trends stub 0 = (Inr stub_trends, 1)
   \<and> failed_count (map map_trend (slice_to stub_trends 3)) = 1
   \<and> fst (get_trending stub logged_in (PInt 3) 0) =
       PDict [(''success'', PBool True),
              (''trends'', PList
                 [PDict [(''name'', PStr ''#a''), (''url'', PStr []),
                         (''tweet_volume'', PInt 10), (''platform'', PStr ''twitter'')],
                  PDict [(''name'', PStr ''#b''), (''url'', PStr []),
                         (''tweet_volume'', PNone), (''platform'', PStr ''twitter'')]]),
              (''count'', PInt 2)]"
proof -
  have i: "initialized logged_in" and c: "client logged_in \<noteq> None"
    by (simp_all add: logged_in_def)
  have s: "search_tweet stub (PStr ''cats'') (PInt 20) 0 = (Inr stub_tweets, 1)"
    by (simp add: stub_def)
  have t: "get_trends stub 0 = (Inr stub_trends, 1)"
    by (simp add: stub_def)
  have n: "length stub_tweets = 3" by (simp add: stub_tweets_def)
  have k: "failed_count (fst (map_each stub stub_tweets 1)) = 1"
    by (simp add: stub_defs bridge_defs)
  have k0: "failed_count (fst (map_each stub stub_tweets (Suc 0))) = 1"
    using k by simp
  have m: "length (mapped_items (fst (map_each stub stub_tweets 1))) = 2"
    unfolding length_mapped_items length_map_each n k by simp
  have sl: "slice_to stub_trends (min 3 (int (length stub_trends))) = stub_trends"
    and sl3: "slice_to stub_trends 3 = stub_trends"
    by (simp_all add: slice_to_def stub_trends_def)
  have tr: "map map_trend stub_trends =
      [Inr (PDict [(''name'', PStr ''#a''), (''url'', PStr []),
                   (''tweet_volume'', PInt 10), (''platform'', PStr ''twitter'')]),
       Inr (PDict [(''name'', PStr ''#b''), (''url'', PStr []),
                   (''tweet_volume'', PNone), (''platform'', PStr ''twitter'')]),
       Inl (OtherException ''boom'')]"
    by (simp add: stub_trends_def map_trend_def bindE_def getattr_default_def)
  have l3: "length stub_trends = 3" by (simp add: stub_trends_def)
  from batch_drops_failed_items [OF i c, of stub "PStr ''cats''" "PInt 20" 0 stub_tweets 1
      stub_trends 3] s t
  have "fst (search_tweets stub logged_in (PStr ''cats'') (PInt 20) 0) =
       PDict [(''success'', PBool True),
              (''tweets'', PList (mapped_items (fst (map_each stub stub_tweets 1)))),
              (''count'', PInt 2),
              (''query'', PStr ''cats'')]"
    and "fst (get_trending stub logged_in (PInt 3) 0) =
       PDict [(''success'', PBool True),
              (''trends'', PList
                 [PDict [(''name'', PStr ''#a''), (''url'', PStr []),
                         (''tweet_volume'', PInt 10), (''platform'', PStr ''twitter'')],
                  PDict [(''name'', PStr ''#b''), (''url'', PStr []),
                         (''tweet_volume'', PNone), (''platform'', PStr ''twitter'')]]),
              (''count'', PInt 2)]"
    by (simp_all add: n k0 sl sl3 tr l3)
  moreover have "failed_count (map map_trend (slice_to stub_trends 3)) = 1"
    by (simp add: sl3 tr)
  ultimately show ?thesis using i c s t n k m by (intro conjI)
qed

text \<open>
  C6 as stated fails for \<^verbatim>\<open>get_trending\<close>: the client returns three trends of which one
  fails to map, and with count 1 the payload holds one item, not two.
\<close>

theorem trending_cuts_before_mapping:
  "initialized logged_in
   \<and> get_trends stub 0 = (Inr stub_trends, 1)
   \<and> length stub_trends = 3
   \<and> failed_count (map map_trend stub_trends) = 1
   \<and> fst (get_trending stub logged_in (PInt 1) 0) =
     PDict [(''success'', PBool True),
            (''trends'', PList
               [PDict [(''name'', PStr ''#a''), (''url'', PStr []),
                       (''tweet_volume'', PInt 10), (''platform'', PStr ''twitter'')]]),
            (''count'', PInt 1)]"
  by (simp add: stub_defs bridge_defs)

section \<open>The timestamp of a tweet\<close>


















section \<open>The bound of trending\<close>

lemma slice_to_length:
  "0 \<le> m \<Longrightarrow> int (length (slice_to xs m)) \<le> m"
  by (simp add: slice_to_def)

text \<open>
  For a count that is not negative the bound of C10 holds: the payload is a success with
  at most \<open>c\<close> items, and its count field is their number.
\<close>

lemma trending_bound_nonnegative:
  assumes "initialized self" and "client self \<noteq> None" and "0 \<le> c"
    and "get_trends env w = (Inr trends, w')"
  shows "\<exists>items. fst (get_trending env self (PInt c) w) =
           PDict [(''success'', PBool True),
                  (''trends'', PList items),
                  (''count'', PInt (int (length items)))]
         \<and> int (length items) \<le> c"
proof -
  let ?m = "if int (length trends) < c then int (length trends) else c"
  let ?items = "trends_loop (slice_to trends ?m) []"
  have m0: "0 \<le> ?m" using assms(3) by simp
  have "length ?items \<le> length (slice_to trends ?m)"
    by (simp add: trends_loop_map length_mapped_items)
  moreover have "int (length (slice_to trends ?m)) \<le> ?m"
    using m0 by (rule slice_to_length)
  ultimately have b: "int (length ?items) \<le> c" by (simp split: if_splits)
  have "fst (get_trending env self (PInt c) w) =
           PDict [(''success'', PBool True),
                  (''trends'', PList ?items),
                  (''count'', PInt (int (length ?items)))]"
    using assms(1,2,4) by (auto simp: get_trending_def min_count_def Let_def)
  with b show ?thesis by blast
qed

text \<open>
  C10, on a negative count. The slice \<^verbatim>\<open>trends[:min(-1, 3)]\<close> is \<^verbatim>\<open>trends[:-1]\<close>, all but the
  last trend: the payload is a success with two items, which is more than the count.
\<close>

theorem trending_negative_count:
  "fst (get_trending stub logged_in (PInt (- 1)) 0) =
     PDict [(''success'', PBool True),
            (''trends'', PList
               [PDict [(''name'', PStr ''#a''), (''url'', PStr []),
                       (''tweet_volume'', PInt 10), (''platform'', PStr ''twitter'')],
                PDict [(''name'', PStr ''#b''), (''url'', PStr []),
                       (''tweet_volume'', PNone), (''platform'', PStr ''twitter'')]]),
            (''count'', PInt 2)]"
  by (simp add: stub_defs bridge_defs)

theorem trending_negative_count_witness:
  "initialized logged_in
   \<and> client logged_in = Some (Client ''en-US'')
   \<and> get_trends stub 0 = (Inr stub_trends, 1)
   \<and> length stub_trends = 3
   \<and> fst (get_trending stub logged_in (PInt (- 1)) 0) =
     PDict [(''success'', PBool True),
            (''trends'', PList
               [PDict [(''name'', PStr ''#a''), (''url'', PStr []),
                       (''tweet_volume'', PInt 10), (''platform'', PStr ''twitter'')],
                PDict [(''name'', PStr ''#b''), (''url'', PStr []),
                       (''tweet_volume'', PNone), (''platform'', PStr ''twitter'')]]),
            (''count'', PInt 2)]"
proof -
  have "initialized logged_in" and "client logged_in = Some (Client ''en-US'')"
    and "get_trends stub 0 = (Inr stub_trends, 1)" and "length stub_trends = 3"
    by (simp_all add: logged_in_def stub_def stub_trends_def)
  with trending_negative_count show ?thesis by (intro conjI)
qed

end
